theory Spec2Isabelle
  imports Complex_Main "HOL-Library.AList"
begin

section \<open>Python values, runtime types and exceptions\<close>

text \<open>
  The module \<^verbatim>\<open>robustness/datasets.py\<close> stores arbitrary Python objects in keyword
  dictionaries and only ever inspects three things about them: whether a value is
  \<^verbatim>\<open>None\<close>, what \<^verbatim>\<open>type(v)\<close> is, and whether \<^verbatim>\<open>isinstance(v, t)\<close> holds.
  A runtime type is a class name together with the names of its proper ancestors (the tail
  of its method resolution order); \<^verbatim>\<open>isinstance\<close> holds when the class asked for is the
  object's class or one of those ancestors.
\<close>

datatype pytype = PyType (type_name: string) (type_bases: "string list")

datatype pyval =
    PyNone
  | PyBool bool
  | PyInt int
  | PyStr string
  | PyTensor "rat list"
  | PyList "pyval list"
  | PyTuple "pyval list"
  | PyDict "(string \<times> pyval) list"
  | PyFunction string "pyval list"
  | PyClass pytype
  | PyObject pytype string

text \<open>
  \<^item> \<open>PyTensor\<close>: a \<^verbatim>\<open>torch.tensor\<close> of numbers, entries written as the decimal literals
    of the source; the module never computes with them.
  \<^item> \<open>PyFunction f cs\<close>: a function object named \<open>f\<close> closed over the values \<open>cs\<close>.
  \<^item> \<open>PyClass t\<close>: a class object (what \<^verbatim>\<open>custom_class\<close> holds).
  \<^item> \<open>PyObject t tag\<close>: an instance of class \<open>t\<close> that the module treats as opaque
    (a \<^verbatim>\<open>transforms.Compose\<close> pipeline, say); \<open>tag\<close> tells instances apart.
\<close>

definition NoneType :: pytype where "NoneType = PyType ''NoneType'' [''object'']"
definition int_type :: pytype where "int_type = PyType ''int'' [''object'']"
definition bool_type :: pytype where "bool_type = PyType ''bool'' [''int'', ''object'']"
definition str_type :: pytype where "str_type = PyType ''str'' [''object'']"
definition Tensor_type :: pytype where "Tensor_type = PyType ''Tensor'' [''object'']"
definition list_type :: pytype where "list_type = PyType ''list'' [''object'']"
definition tuple_type :: pytype where "tuple_type = PyType ''tuple'' [''object'']"
definition dict_type :: pytype where "dict_type = PyType ''dict'' [''object'']"
definition function_type :: pytype where "function_type = PyType ''function'' [''object'']"
definition type_type :: pytype where "type_type = PyType ''type'' [''object'']"

text \<open>\<^verbatim>\<open>type(v)\<close>.\<close>

fun type_of :: "pyval \<Rightarrow> pytype" where
  "type_of PyNone = NoneType"
| "type_of (PyBool b) = bool_type"
| "type_of (PyInt i) = int_type"
| "type_of (PyStr s) = str_type"
| "type_of (PyTensor xs) = Tensor_type"
| "type_of (PyList vs) = list_type"
| "type_of (PyTuple vs) = tuple_type"
| "type_of (PyDict kvs) = dict_type"
| "type_of (PyFunction f cs) = function_type"
| "type_of (PyClass t) = type_type"
| "type_of (PyObject t tag) = t"

text \<open>\<^verbatim>\<open>issubclass(t, u)\<close> and \<^verbatim>\<open>isinstance(v, u)\<close>.\<close>

definition issubclass :: "pytype \<Rightarrow> pytype \<Rightarrow> bool" where
  "issubclass t u = (type_name u = type_name t \<or> type_name u \<in> set (type_bases t))"

definition isinstance :: "pyval \<Rightarrow> pytype \<Rightarrow> bool" where
  "isinstance v u = issubclass (type_of v) u"

text \<open>
  The messages of the \<^verbatim>\<open>ValueError\<close>s the module raises, with what they are formatted
  from. The missing and the unrecognised argument names are Python sets, printed in no
  fixed order, so the message carries the set.
\<close>

datatype message =
    Missing_required_args "string set"
  | Got_unrecognized_args "string set"
  | Argument_should_have_type string pytype
  | Doesnt_support_pytorch_pretrained

text \<open>
  The exceptions that leave the module. \<^verbatim>\<open>ValueError\<close> is the one the module raises
  itself (the specification calls it \<^verbatim>\<open>ConfigurationError\<close>); \<^verbatim>\<open>KeyError\<close> comes from
  indexing a dictionary with an absent key, \<^verbatim>\<open>TypeError\<close> from a call that binds a
  parameter twice, \<^verbatim>\<open>NotImplementedError\<close> from the abstract \<^verbatim>\<open>get_model\<close>.
\<close>

datatype pyerr =
    ValueError message
  | KeyError string
  | TypeError
  | NotImplementedError

fun is_ValueError :: "pyerr \<Rightarrow> bool" where
  "is_ValueError (ValueError m) = True"
| "is_ValueError e = False"

fun raises_ValueError :: "pyerr + 'a \<Rightarrow> bool" where
  "raises_ValueError (Inl e) = is_ValueError e"
| "raises_ValueError (Inr x) = False"

section \<open>Keyword dictionaries\<close>

text \<open>
  A Python \<^verbatim>\<open>dict\<close> with string keys, in insertion order: an association list whose
  keys are distinct.
\<close>

type_synonym dict = "(string \<times> pyval) list"

definition is_dict :: "dict \<Rightarrow> bool" where
  "is_dict d = distinct (map fst d)"

text \<open>\<^verbatim>\<open>d.keys()\<close>, \<^verbatim>\<open>k in d\<close> and \<^verbatim>\<open>d.get(k, None)\<close>.\<close>

definition keys :: "dict \<Rightarrow> string list" where
  "keys d = map fst d"

definition has_key :: "dict \<Rightarrow> string \<Rightarrow> bool" where
  "has_key d k = (map_of d k \<noteq> None)"

definition dict_get :: "dict \<Rightarrow> string \<Rightarrow> pyval" where
  "dict_get d k = (case map_of d k of Some v \<Rightarrow> v | None \<Rightarrow> PyNone)"

text \<open>
  \<^verbatim>\<open>{**a, **b}\<close>: a copy of \<open>a\<close> into which the items of \<open>b\<close> are stored one by one,
  a key already there keeping its place and taking the new value, a new key going to
  the end.
\<close>

definition dict_merge :: "dict \<Rightarrow> dict \<Rightarrow> dict" where
  "dict_merge a b = fold (\<lambda>(k, v). AList.update k v) b a"

section \<open>The base class \<^verbatim>\<open>DataSet\<close>\<close>

text \<open>
  \<^verbatim>\<open>__init__\<close> sets \<^verbatim>\<open>ds_name\<close> and \<^verbatim>\<open>data_path\<close> and then injects exactly the eight
  keys of \<^verbatim>\<open>final_kwargs\<close> into the object's attribute table, so an object that exists
  has these ten attributes.
\<close>

record DataSet =
  ds_name :: string
  data_path :: string
  num_classes :: pyval
  mean :: pyval
  std :: pyval
  transform_train :: pyval
  transform_test :: pyval
  custom_class :: pyval
  label_mapping :: pyval
  custom_class_args :: pyval

definition required_args :: "string list" where
  "required_args = [''num_classes'', ''mean'', ''std'', ''transform_train'', ''transform_test'']"

definition optional_args :: "string list" where
  "optional_args = [''custom_class'', ''label_mapping'', ''custom_class_args'']"

text \<open>
  \<^verbatim>\<open>DataSet.__init__(self, ds_name, data_path, **kwargs)\<close>; \<open>kwargs\<close> is the dictionary the
  body sees. \<^verbatim>\<open>final_kwargs\<close> maps each of the eight names \<open>k\<close> to
  \<^verbatim>\<open>kwargs.get(k, None)\<close>, and \<^verbatim>\<open>self.__dict__.update(final_kwargs)\<close> makes each an
  attribute.
\<close>

definition DataSet_init :: "string \<Rightarrow> string \<Rightarrow> dict \<Rightarrow> pyerr + DataSet" where
  "DataSet_init name path kwargs =
     (let missing_args = set required_args - set (keys kwargs) in
      if missing_args \<noteq> {} then Inl (ValueError (Missing_required_args missing_args))
      else
        let extra_args = set (keys kwargs) - set (required_args @ optional_args) in
        if extra_args \<noteq> {} then Inl (ValueError (Got_unrecognized_args extra_args))
        else
          let final_kwargs = dict_get kwargs in
          Inr \<lparr> ds_name = name,
                data_path = path,
                num_classes = final_kwargs ''num_classes'',
                mean = final_kwargs ''mean'',
                std = final_kwargs ''std'',
                transform_train = final_kwargs ''transform_train'',
                transform_test = final_kwargs ''transform_test'',
                custom_class = final_kwargs ''custom_class'',
                label_mapping = final_kwargs ''label_mapping'',
                custom_class_args = final_kwargs ''custom_class_args'' \<rparr>)"

text \<open>
  \<^verbatim>\<open>DataSet.override_args(self, default_args, kwargs)\<close>. The loop visits the items of
  \<open>kwargs\<close> in order (\<^verbatim>\<open>for k in kwargs\<close>, reading \<^verbatim>\<open>kwargs[k]\<close>) and raises at the
  first offending key; \<open>None\<close> is the result of a loop that ran to its end.
\<close>

fun override_args_loop :: "dict \<Rightarrow> dict \<Rightarrow> pyerr option" where
  "override_args_loop default_args [] = None"
| "override_args_loop default_args ((k, v) # rest) =
     (case map_of default_args k of
        None \<Rightarrow> override_args_loop default_args rest
      | Some d \<Rightarrow>
          let req_type = type_of d;
              no_nones = (d \<noteq> PyNone \<and> v \<noteq> PyNone)
          in if no_nones \<and> \<not> isinstance v req_type
             then Some (ValueError (Argument_should_have_type k req_type))
             else override_args_loop default_args rest)"

definition override_args :: "dict \<Rightarrow> dict \<Rightarrow> pyerr + dict" where
  "override_args default_args kwargs =
     (case override_args_loop default_args kwargs of
        Some e \<Rightarrow> Inl e
      | None \<Rightarrow> Inr (dict_merge default_args kwargs))"

text \<open>
  \<^verbatim>\<open>super().__init__(ds_name, data_path, **ds_kwargs)\<close>: Python refuses the call with a
  \<^verbatim>\<open>TypeError\<close> when the unpacked dictionary names a parameter that is already bound
  positionally.
\<close>

definition super_init :: "string \<Rightarrow> string \<Rightarrow> dict \<Rightarrow> pyerr + DataSet" where
  "super_init name path ds_kwargs =
     (if has_key ds_kwargs ''self'' \<or> has_key ds_kwargs ''ds_name'' \<or> has_key ds_kwargs ''data_path''
      then Inl TypeError
      else DataSet_init name path ds_kwargs)"

section \<open>The loader collaborator\<close>

text \<open>
  The keyword arguments \<^verbatim>\<open>make_loaders\<close> accepts besides \<^verbatim>\<open>workers\<close> and
  \<^verbatim>\<open>batch_size\<close>, typed as its docstring types them, and their defaults.
\<close>

record loader_options =
  data_aug :: bool
  subset :: "int option"
  subset_start :: int
  subset_type :: string
  val_batch_size :: "int option"
  only_val :: bool
  shuffle_train :: bool
  shuffle_val :: bool
  subset_seed :: "int option"

definition default_options :: loader_options where
  "default_options =
     \<lparr> data_aug = True, subset = None, subset_start = 0, subset_type = ''rand'',
       val_batch_size = None, only_val = False, shuffle_train = True, shuffle_val = True,
       subset_seed = None \<rparr>"

text \<open>The keyword arguments of one call of \<^verbatim>\<open>loaders.make_loaders\<close>.\<close>

record loaders_call =
  arg_workers :: int
  arg_batch_size :: int
  arg_transforms :: "pyval \<times> pyval"
  arg_data_path :: string
  arg_data_aug :: bool
  arg_dataset :: string
  arg_label_mapping :: pyval
  arg_custom_class :: pyval
  arg_val_batch_size :: "int option"
  arg_subset :: "int option"
  arg_subset_start :: int
  arg_subset_type :: string
  arg_only_val :: bool
  arg_seed :: "int option"
  arg_shuffle_train :: bool
  arg_shuffle_val :: bool
  arg_custom_class_args :: pyval

text \<open>
  \<^verbatim>\<open>DataSet.make_loaders\<close>. The module \<^verbatim>\<open>loaders\<close> is a collaborator outside this file:
  \<open>loaders_make_loaders\<close> stands for its function \<^verbatim>\<open>make_loaders\<close>, whatever it returns or
  raises.
\<close>

definition make_loaders ::
  "(loaders_call \<Rightarrow> 'r) \<Rightarrow> DataSet \<Rightarrow> int \<Rightarrow> int \<Rightarrow> loader_options \<Rightarrow> 'r" where
  "make_loaders loaders_make_loaders self workers batch_size opts =
     (let transforms = (transform_train self, transform_test self) in
      loaders_make_loaders
        \<lparr> arg_workers = workers,
          arg_batch_size = batch_size,
          arg_transforms = transforms,
          arg_data_path = data_path self,
          arg_data_aug = data_aug opts,
          arg_dataset = ds_name self,
          arg_label_mapping = label_mapping self,
          arg_custom_class = custom_class self,
          arg_val_batch_size = val_batch_size opts,
          arg_subset = subset opts,
          arg_subset_start = subset_start opts,
          arg_subset_type = subset_type opts,
          arg_only_val = only_val opts,
          arg_seed = subset_seed opts,
          arg_shuffle_train = shuffle_train opts,
          arg_shuffle_val = shuffle_val opts,
          arg_custom_class_args = custom_class_args self \<rparr>)"

section \<open>The variants\<close>

text \<open>
  What the module imports from the rest of the package and only passes on: the
  superclass ranges \<^verbatim>\<open>constants.RESTRICTED_IMAGNET_RANGES\<close>, the two transformation
  pipelines of \<^verbatim>\<open>data_augmentation\<close>, and \<^verbatim>\<open>tools.helpers.get_label_mapping\<close>. They are
  parameters of the constructors.
\<close>

record package =
  RESTRICTED_IMAGNET_RANGES :: "pyval list"
  TRAIN_TRANSFORMS_IMAGENET :: pyval
  TEST_TRANSFORMS_IMAGENET :: pyval
  get_label_mapping :: "string \<Rightarrow> pyval list \<Rightarrow> pyerr + pyval"

text \<open>\<^verbatim>\<open>ImageNet.__init__(self, data_path, **kwargs)\<close>.\<close>

definition ImageNet_init :: "package \<Rightarrow> string \<Rightarrow> dict \<Rightarrow> pyerr + DataSet" where
  "ImageNet_init pkg path kwargs =
     (let ds_kwargs =
            [(''num_classes'', PyInt 1000),
             (''mean'', PyTensor [0.485, 0.456, 0.406]),
             (''std'', PyTensor [0.229, 0.224, 0.225]),
             (''custom_class'', PyNone),
             (''label_mapping'', PyNone),
             (''transform_train'', TRAIN_TRANSFORMS_IMAGENET pkg),
             (''transform_test'', TEST_TRANSFORMS_IMAGENET pkg)]
      in case override_args ds_kwargs kwargs of
           Inl e \<Rightarrow> Inl e
         | Inr ds_kwargs \<Rightarrow> super_init ''imagenet'' path ds_kwargs)"

text \<open>\<^verbatim>\<open>RestrictedImageNet.__init__(self, data_path, **kwargs)\<close>.\<close>

definition RestrictedImageNet_init :: "package \<Rightarrow> string \<Rightarrow> dict \<Rightarrow> pyerr + DataSet" where
  "RestrictedImageNet_init pkg path kwargs =
     (let name = ''restricted_imagenet'' in
      case get_label_mapping pkg name (RESTRICTED_IMAGNET_RANGES pkg) of
        Inl e \<Rightarrow> Inl e
      | Inr mapping \<Rightarrow>
          let ds_kwargs =
                [(''num_classes'', PyInt (int (length (RESTRICTED_IMAGNET_RANGES pkg)))),
                 (''mean'', PyTensor [0.4717, 0.4499, 0.3837]),
                 (''std'', PyTensor [0.2600, 0.2516, 0.2575]),
                 (''custom_class'', PyNone),
                 (''label_mapping'', mapping),
                 (''transform_train'', TRAIN_TRANSFORMS_IMAGENET pkg),
                 (''transform_test'', TEST_TRANSFORMS_IMAGENET pkg)]
          in case override_args ds_kwargs kwargs of
               Inl e \<Rightarrow> Inl e
             | Inr ds_kwargs \<Rightarrow> super_init name path ds_kwargs)"

text \<open>
  \<^verbatim>\<open>CustomImageNet.__init__(self, data_path, custom_grouping, **kwargs)\<close>, for a
  \<^verbatim>\<open>custom_grouping\<close> that is a list.
\<close>

definition CustomImageNet_init ::
  "package \<Rightarrow> string \<Rightarrow> pyval list \<Rightarrow> dict \<Rightarrow> pyerr + DataSet" where
  "CustomImageNet_init pkg path custom_grouping kwargs =
     (let name = ''custom_imagenet'' in
      case get_label_mapping pkg name custom_grouping of
        Inl e \<Rightarrow> Inl e
      | Inr mapping \<Rightarrow>
          let ds_kwargs =
                [(''num_classes'', PyInt (int (length custom_grouping))),
                 (''mean'', PyTensor [0.4717, 0.4499, 0.3837]),
                 (''std'', PyTensor [0.2600, 0.2516, 0.2575]),
                 (''custom_class'', PyNone),
                 (''label_mapping'', mapping),
                 (''transform_train'', TRAIN_TRANSFORMS_IMAGENET pkg),
                 (''transform_test'', TEST_TRANSFORMS_IMAGENET pkg)]
          in case override_args ds_kwargs kwargs of
               Inl e \<Rightarrow> Inl e
             | Inr ds_kwargs \<Rightarrow> super_init name path ds_kwargs)"

section \<open>\<^verbatim>\<open>get_model\<close>\<close>

text \<open>
  \<^verbatim>\<open>imagenet_models.__dict__\<close> is the namespace of a module outside this file: a
  dictionary from names to builders. A builder is called with keyword arguments;
  \<^verbatim>\<open>pretrained\<close> is absent from the call when the caller does not pass it. What a
  builder returns or raises is its own business.
\<close>

record builder_call =
  kw_num_classes :: pyval
  kw_pretrained :: "bool option"

type_synonym 'm registry = "string \<rightharpoonup> (builder_call \<Rightarrow> pyerr + 'm)"

text \<open>\<^verbatim>\<open>DataSet.get_model\<close>, the abstract method.\<close>

definition DataSet_get_model :: "'m registry \<Rightarrow> DataSet \<Rightarrow> string \<Rightarrow> bool \<Rightarrow> pyerr + 'm" where
  "DataSet_get_model imagenet_models self arch pretrained = Inl NotImplementedError"

text \<open>\<^verbatim>\<open>ImageNet.get_model\<close>; \<^verbatim>\<open>Places365.get_model\<close> has the same body.\<close>

definition ImageNet_get_model :: "'m registry \<Rightarrow> DataSet \<Rightarrow> string \<Rightarrow> bool \<Rightarrow> pyerr + 'm" where
  "ImageNet_get_model imagenet_models self arch pretrained =
     (case imagenet_models arch of
        None \<Rightarrow> Inl (KeyError arch)
      | Some builder \<Rightarrow>
          builder \<lparr> kw_num_classes = num_classes self, kw_pretrained = Some pretrained \<rparr>)"

definition Places365_get_model :: "'m registry \<Rightarrow> DataSet \<Rightarrow> string \<Rightarrow> bool \<Rightarrow> pyerr + 'm" where
  "Places365_get_model imagenet_models self arch pretrained =
     (case imagenet_models arch of
        None \<Rightarrow> Inl (KeyError arch)
      | Some builder \<Rightarrow>
          builder \<lparr> kw_num_classes = num_classes self, kw_pretrained = Some pretrained \<rparr>)"

text \<open>\<^verbatim>\<open>RestrictedImageNet.get_model\<close> and \<^verbatim>\<open>CustomImageNet.get_model\<close>.\<close>

definition RestrictedImageNet_get_model ::
  "'m registry \<Rightarrow> DataSet \<Rightarrow> string \<Rightarrow> bool \<Rightarrow> pyerr + 'm" where
  "RestrictedImageNet_get_model imagenet_models self arch pretrained =
     (if pretrained then Inl (ValueError Doesnt_support_pytorch_pretrained)
      else case imagenet_models arch of
             None \<Rightarrow> Inl (KeyError arch)
           | Some builder \<Rightarrow>
               builder \<lparr> kw_num_classes = num_classes self, kw_pretrained = None \<rparr>)"

definition CustomImageNet_get_model ::
  "'m registry \<Rightarrow> DataSet \<Rightarrow> string \<Rightarrow> bool \<Rightarrow> pyerr + 'm" where
  "CustomImageNet_get_model imagenet_models self arch pretrained =
     (if pretrained then Inl (ValueError Doesnt_support_pytorch_pretrained)
      else case imagenet_models arch of
             None \<Rightarrow> Inl (KeyError arch)
           | Some builder \<Rightarrow>
               builder \<lparr> kw_num_classes = num_classes self, kw_pretrained = None \<rparr>)"

text \<open>The classes of the module, and the method a call \<^verbatim>\<open>ds.get_model(...)\<close> resolves to.\<close>

datatype dataset_class =
  DataSet_class | ImageNet | Places365 | RestrictedImageNet | CustomImageNet

fun get_model ::
  "dataset_class \<Rightarrow> 'm registry \<Rightarrow> DataSet \<Rightarrow> string \<Rightarrow> bool \<Rightarrow> pyerr + 'm" where
  "get_model DataSet_class = DataSet_get_model"
| "get_model ImageNet = ImageNet_get_model"
| "get_model Places365 = Places365_get_model"
| "get_model RestrictedImageNet = RestrictedImageNet_get_model"
| "get_model CustomImageNet = CustomImageNet_get_model"

section \<open>The label mapper and example inputs\<close>

text \<open>
  Modelled from the spec: \<^verbatim>\<open>tools.helpers.get_label_mapping\<close> is not part of this file.
  The specification's label mapper builds, from an ordered list of groups, a mapping with
  one coarse label per group (\<^verbatim>\<open>group_count = len(groups)\<close>). The mapping object is kept
  symbolic here: a function object closed over the groups it was built from. Its array of
  coarse labels and its range check need the size of the fine label space, which the calls
  in this module do not pass; they are not modelled.
\<close>

definition spec_get_label_mapping :: "string \<Rightarrow> pyval list \<Rightarrow> pyerr + pyval" where
  "spec_get_label_mapping name groups = Inr (PyFunction ''label_mapping'' groups)"

text \<open>
  Modelled from the spec: the number of coarse groups of a label mapping, \<open>None\<close> for a
  value that is not a mapping built by the label mapper.
\<close>

fun group_count :: "pyval \<Rightarrow> nat option" where
  "group_count (PyFunction f groups) = Some (length groups)"
| "group_count v = None"

definition Compose_type :: pytype where
  "Compose_type = PyType ''Compose'' [''object'']"

text \<open>
  A package to run the constructors in. The nine ranges are the ones the docstring of
  \<^verbatim>\<open>RestrictedImageNet\<close> lists (dog, cat, frog, turtle, bird, monkey, fish, crab, insect);
  the pipelines are opaque objects.
\<close>

definition example_package :: package where
  "example_package =
     \<lparr> RESTRICTED_IMAGNET_RANGES =
         [PyTuple [PyInt 151, PyInt 268], PyTuple [PyInt 281, PyInt 285],
          PyTuple [PyInt 30, PyInt 32], PyTuple [PyInt 33, PyInt 37],
          PyTuple [PyInt 80, PyInt 100], PyTuple [PyInt 365, PyInt 382],
          PyTuple [PyInt 389, PyInt 397], PyTuple [PyInt 118, PyInt 121],
          PyTuple [PyInt 300, PyInt 319]],
       TRAIN_TRANSFORMS_IMAGENET = PyObject Compose_type ''TRAIN_TRANSFORMS_IMAGENET'',
       TEST_TRANSFORMS_IMAGENET = PyObject Compose_type ''TEST_TRANSFORMS_IMAGENET'',
       get_label_mapping = spec_get_label_mapping \<rparr>"

text \<open>The descriptor \<^verbatim>\<open>ImageNet('/data/imagenet')\<close> in that package.\<close>

definition imagenet_ds :: DataSet where
  "imagenet_ds =
     \<lparr> ds_name = ''imagenet'', data_path = ''/data/imagenet'',
       num_classes = PyInt 1000,
       mean = PyTensor [0.485, 0.456, 0.406],
       std = PyTensor [0.229, 0.224, 0.225],
       transform_train = PyObject Compose_type ''TRAIN_TRANSFORMS_IMAGENET'',
       transform_test = PyObject Compose_type ''TEST_TRANSFORMS_IMAGENET'',
       custom_class = PyNone, label_mapping = PyNone, custom_class_args = PyNone \<rparr>"

text \<open>The same descriptor with the statistics of the restricted variant.\<close>

definition restricted_stats_ds :: DataSet where
  "restricted_stats_ds =
     imagenet_ds \<lparr> mean := PyTensor [0.4717, 0.4499, 0.3837],
                   std := PyTensor [0.2600, 0.2516, 0.2575] \<rparr>"

text \<open>
  \<^verbatim>\<open>RestrictedImageNet('/data/imagenet')\<close>, and the same call with the override
  \<^verbatim>\<open>num_classes=3\<close>.
\<close>

definition restricted_ds :: DataSet where
  "restricted_ds =
     \<lparr> ds_name = ''restricted_imagenet'', data_path = ''/data/imagenet'',
       num_classes = PyInt 9,
       mean = PyTensor [0.4717, 0.4499, 0.3837],
       std = PyTensor [0.2600, 0.2516, 0.2575],
       transform_train = PyObject Compose_type ''TRAIN_TRANSFORMS_IMAGENET'',
       transform_test = PyObject Compose_type ''TEST_TRANSFORMS_IMAGENET'',
       custom_class = PyNone,
       label_mapping =
         PyFunction ''label_mapping'' (RESTRICTED_IMAGNET_RANGES example_package),
       custom_class_args = PyNone \<rparr>"

definition restricted3_ds :: DataSet where
  "restricted3_ds = restricted_ds \<lparr> num_classes := PyInt 3 \<rparr>"

text \<open>A custom grouping of two groups of WordNet identifiers, and its descriptor.\<close>

definition two_groups :: "pyval list" where
  "two_groups =
     [PyList [PyStr ''n02085620'', PyStr ''n02085782''],
      PyList [PyStr ''n02123045'']]"

definition custom_ds :: DataSet where
  "custom_ds =
     \<lparr> ds_name = ''custom_imagenet'', data_path = ''/data/imagenet'',
       num_classes = PyInt 2,
       mean = PyTensor [0.4717, 0.4499, 0.3837],
       std = PyTensor [0.2600, 0.2516, 0.2575],
       transform_train = PyObject Compose_type ''TRAIN_TRANSFORMS_IMAGENET'',
       transform_test = PyObject Compose_type ''TEST_TRANSFORMS_IMAGENET'',
       custom_class = PyNone,
       label_mapping = PyFunction ''label_mapping'' two_groups,
       custom_class_args = PyNone \<rparr>"

text \<open>Keyword arguments for the base class: CIFAR-10's, and the same without statistics.\<close>

definition cifar_kwargs :: dict where
  "cifar_kwargs =
     [(''num_classes'', PyInt 10),
      (''mean'', PyTensor [0.4914, 0.4822, 0.4465]),
      (''std'', PyTensor [0.2023, 0.1994, 0.2010]),
      (''transform_train'', PyObject Compose_type ''TRAIN_TRANSFORMS_DEFAULT(32)''),
      (''transform_test'', PyObject Compose_type ''TEST_TRANSFORMS_DEFAULT(32)'')]"

definition cifar_ds :: DataSet where
  "cifar_ds =
     \<lparr> ds_name = ''cifar'', data_path = ''/data/cifar'',
       num_classes = PyInt 10,
       mean = PyTensor [0.4914, 0.4822, 0.4465],
       std = PyTensor [0.2023, 0.1994, 0.2010],
       transform_train = PyObject Compose_type ''TRAIN_TRANSFORMS_DEFAULT(32)'',
       transform_test = PyObject Compose_type ''TEST_TRANSFORMS_DEFAULT(32)'',
       custom_class = PyNone, label_mapping = PyNone, custom_class_args = PyNone \<rparr>"

definition no_stats_kwargs :: dict where
  "no_stats_kwargs =
     [(''num_classes'', PyInt 10),
      (''mean'', PyNone),
      (''std'', PyNone),
      (''transform_train'', PyObject Compose_type ''TRAIN_TRANSFORMS_DEFAULT(32)''),
      (''transform_test'', PyObject Compose_type ''TEST_TRANSFORMS_DEFAULT(32)'')]"

text \<open>
  A registry of two architectures whose builders return the keyword arguments they were
  called with, so that a result shows what was asked of the builder.
\<close>

definition example_registry :: "builder_call registry" where
  "example_registry = [''resnet50'' \<mapsto> Inr, ''resnet18'' \<mapsto> Inr]"

text \<open>
  The namespace of a module also holds entries that are not builders: \<^verbatim>\<open>__name__\<close> is
  a string in every module's \<^verbatim>\<open>__dict__\<close>, and calling a string raises a
  \<^verbatim>\<open>TypeError\<close>.
\<close>

definition module_registry :: "builder_call registry" where
  "module_registry = example_registry(''__name__'' \<mapsto> (\<lambda>call. Inl TypeError))"

text \<open>The defining equations that evaluate the functions above on concrete inputs.\<close>

lemmas evaluation =
  NoneType_def int_type_def bool_type_def str_type_def Tensor_type_def function_type_def
  Compose_type_def isinstance_def issubclass_def
  is_dict_def keys_def has_key_def dict_get_def dict_merge_def
  required_args_def optional_args_def DataSet_init_def override_args_def super_init_def
  make_loaders_def default_options_def
  ImageNet_init_def RestrictedImageNet_init_def CustomImageNet_init_def
  ImageNet_get_model_def Places365_get_model_def RestrictedImageNet_get_model_def
  CustomImageNet_get_model_def DataSet_get_model_def
  spec_get_label_mapping_def example_package_def imagenet_ds_def restricted_stats_ds_def
  restricted_ds_def restricted3_ds_def two_groups_def custom_ds_def
  cifar_kwargs_def cifar_ds_def no_stats_kwargs_def example_registry_def module_registry_def
  Let_def

section \<open>Dictionary lemmas\<close>

lemma dict_get_key: "k \<in> set (keys d) \<Longrightarrow> map_of d k = Some (dict_get d k)"
  by (auto simp: keys_def dict_get_def map_of_eq_None_iff split: option.splits)

lemma dict_get_absent: "k \<notin> set (keys d) \<Longrightarrow> dict_get d k = PyNone"
  using map_of_eq_None_iff[of d k] by (simp add: keys_def dict_get_def)

lemma dict_merge_Cons: "dict_merge a ((k, v) # b) = dict_merge (AList.update k v a) b"
  by (simp add: dict_merge_def)

lemma dict_merge_snoc: "dict_merge a (b @ [(k, v)]) = AList.update k v (dict_merge a b)"
  by (simp add: dict_merge_def)

lemma map_of_dict_merge:
  "distinct (map fst b) \<Longrightarrow> map_of (dict_merge a b) = map_of a ++ map_of b"
proof (induction b arbitrary: a)
  case Nil
  then show ?case by (simp add: dict_merge_def)
next
  case (Cons p b)
  obtain k v where p: "p = (k, v)" by (cases p)
  from Cons.prems p have notin: "k \<notin> fst ` set b" and dist: "distinct (map fst b)"
    by auto
  have "map_of (dict_merge a (p # b)) = map_of (dict_merge (AList.update k v a) b)"
    by (simp add: dict_merge_Cons p)
  also have "\<dots> = map_of (AList.update k v a) ++ map_of b"
    using Cons.IH[OF dist] .
  also have "\<dots> = (map_of a)(k \<mapsto> v) ++ map_of b"
    by (simp add: update_conv')
  also have "\<dots> = (map_of a ++ map_of b)(k \<mapsto> v)"
  proof
    fix x
    have "map_of b k = None" using notin by (simp add: map_of_eq_None_iff)
    then show "((map_of a)(k \<mapsto> v) ++ map_of b) x = ((map_of a ++ map_of b)(k \<mapsto> v)) x"
      by (cases "x = k") (auto simp: map_add_def split: option.splits)
  qed
  also have "\<dots> = map_of a ++ map_of (p # b)"
    by (simp add: p)
  finally show ?case .
qed

lemma keys_dict_merge: "fst ` set (dict_merge a b) = fst ` set a \<union> fst ` set b"
proof (induction b arbitrary: a)
  case Nil
  then show ?case by (simp add: dict_merge_def)
next
  case (Cons p b)
  obtain k v where p: "p = (k, v)" by (cases p)
  show ?case using Cons.IH[of "AList.update k v a"]
    by (auto simp: p dict_merge_Cons dom_update)
qed

lemma distinct_dict_merge: "distinct (map fst a) \<Longrightarrow> distinct (map fst (dict_merge a b))"
proof (induction b arbitrary: a)
  case Nil
  then show ?case by (simp add: dict_merge_def)
next
  case (Cons p b)
  obtain k v where p: "p = (k, v)" by (cases p)
  show ?case using Cons.IH[of "AList.update k v a"] Cons.prems
    by (simp add: p dict_merge_Cons distinct_update)
qed

lemma update_absent: "k \<notin> fst ` set al \<Longrightarrow> AList.update k v al = al @ [(k, v)]"
  by (induction al) auto

section \<open>The loop of \<^verbatim>\<open>override_args\<close>\<close>

lemma loop_None_iff:
  "override_args_loop default_args kwargs = None \<longleftrightarrow>
   (\<forall>(k, v) \<in> set kwargs. \<forall>d. map_of default_args k = Some d \<longrightarrow>
        d = PyNone \<or> v = PyNone \<or> isinstance v (type_of d))"
  by (induction kwargs) (auto simp: Let_def split: option.splits if_splits)

lemma loop_Some:
  "override_args_loop default_args kwargs = Some e \<Longrightarrow>
   \<exists>(k, v) \<in> set kwargs. \<exists>d. map_of default_args k = Some d \<and> d \<noteq> PyNone \<and> v \<noteq> PyNone \<and>
      \<not> isinstance v (type_of d) \<and> e = ValueError (Argument_should_have_type k (type_of d))"
  by (induction kwargs) (auto simp: Let_def split: option.splits if_splits)

lemma loop_append_absent:
  "map_of default_args k = None \<Longrightarrow>
   override_args_loop default_args (kwargs @ [(k, v)]) = override_args_loop default_args kwargs"
  by (induction kwargs) (auto simp: Let_def split: option.splits)

section \<open>The claims\<close>

subsection \<open>\<^verbatim>\<open>make_loaders\<close>\<close>

text \<open>
  C1, as amended. \<^verbatim>\<open>make_loaders\<close> returns what the loader collaborator returns on one
  call. The keyword arguments of that call (read off with the identity as collaborator)
  are the descriptor's \<^verbatim>\<open>data_path\<close>, \<^verbatim>\<open>ds_name\<close>, the pair of its train and test
  pipelines, its \<^verbatim>\<open>label_mapping\<close>, \<^verbatim>\<open>custom_class\<close> and \<^verbatim>\<open>custom_class_args\<close>, and the
  caller's \<^verbatim>\<open>workers\<close>, \<^verbatim>\<open>batch_size\<close> and options. The descriptor's \<^verbatim>\<open>mean\<close> and
  \<^verbatim>\<open>std\<close> are not among them: replacing them by any other values leaves the call as
  it is.
\<close>

theorem make_loaders_forwards:
  "make_loaders loaders_make_loaders self workers batch_size opts =
     loaders_make_loaders (make_loaders id self workers batch_size opts)
   \<and> arg_data_path (make_loaders id self workers batch_size opts) = data_path self
   \<and> arg_dataset (make_loaders id self workers batch_size opts) = ds_name self
   \<and> arg_transforms (make_loaders id self workers batch_size opts) =
        (transform_train self, transform_test self)
   \<and> arg_label_mapping (make_loaders id self workers batch_size opts) = label_mapping self
   \<and> arg_custom_class (make_loaders id self workers batch_size opts) = custom_class self
   \<and> arg_custom_class_args (make_loaders id self workers batch_size opts) =
        custom_class_args self
   \<and> arg_workers (make_loaders id self workers batch_size opts) = workers
   \<and> arg_batch_size (make_loaders id self workers batch_size opts) = batch_size
   \<and> arg_data_aug (make_loaders id self workers batch_size opts) = data_aug opts
   \<and> arg_subset (make_loaders id self workers batch_size opts) = subset opts
   \<and> arg_subset_start (make_loaders id self workers batch_size opts) = subset_start opts
   \<and> arg_subset_type (make_loaders id self workers batch_size opts) = subset_type opts
   \<and> arg_seed (make_loaders id self workers batch_size opts) = subset_seed opts
   \<and> arg_val_batch_size (make_loaders id self workers batch_size opts) = val_batch_size opts
   \<and> arg_only_val (make_loaders id self workers batch_size opts) = only_val opts
   \<and> arg_shuffle_train (make_loaders id self workers batch_size opts) = shuffle_train opts
   \<and> arg_shuffle_val (make_loaders id self workers batch_size opts) = shuffle_val opts
   \<and> make_loaders loaders_make_loaders (self \<lparr> mean := m, std := s \<rparr>) workers batch_size opts =
        make_loaders loaders_make_loaders self workers batch_size opts"
  by (simp add: make_loaders_def)

text \<open>
  The call \<^verbatim>\<open>ds.make_loaders(workers=8, batch_size=128)\<close> on the ImageNet descriptor.
\<close>

theorem make_loaders_forwards_witness:
  "make_loaders id imagenet_ds 8 128 default_options =
     \<lparr> arg_workers = 8, arg_batch_size = 128,
       arg_transforms = (PyObject Compose_type ''TRAIN_TRANSFORMS_IMAGENET'',
                         PyObject Compose_type ''TEST_TRANSFORMS_IMAGENET''),
       arg_data_path = ''/data/imagenet'', arg_data_aug = True, arg_dataset = ''imagenet'',
       arg_label_mapping = PyNone, arg_custom_class = PyNone, arg_val_batch_size = None,
       arg_subset = None, arg_subset_start = 0, arg_subset_type = ''rand'',
       arg_only_val = False, arg_seed = None, arg_shuffle_train = True,
       arg_shuffle_val = True, arg_custom_class_args = PyNone \<rparr>"
  using make_loaders_forwards [of id imagenet_ds 8 128 default_options]
  by (simp add: evaluation)

text \<open>
  Against C1 as stated: two descriptors with different normalization statistics give the
  loader collaborator the very same call, so the statistics are not forwarded.
\<close>

theorem make_loaders_ignores_statistics:
  "make_loaders id imagenet_ds 8 128 default_options =
     make_loaders id restricted_stats_ds 8 128 default_options
   \<and> mean imagenet_ds \<noteq> mean restricted_stats_ds
   \<and> std imagenet_ds \<noteq> std restricted_stats_ds"
  by (simp add: evaluation)

subsection \<open>\<^verbatim>\<open>override_args\<close>: when it raises\<close>

text \<open>
  C2, as amended. \<^verbatim>\<open>override_args\<close> raises if and only if some item \<open>(k, v)\<close> of the
  overrides has a key that the defaults hold with a value \<open>d\<close>, neither \<open>d\<close> nor \<open>v\<close> is
  \<^verbatim>\<open>None\<close>, and \<open>v\<close> is not an instance of the type of \<open>d\<close> (its class is neither that type
  nor a subclass of it). What it raises is a \<^verbatim>\<open>ValueError\<close> that names such a key and the
  type of its default. When for every shared key the default or the override is
  \<^verbatim>\<open>None\<close>, it does not raise and returns the merged dictionary.
\<close>

theorem override_args_raises_iff_not_instance:
  "((\<exists>e. override_args default_args kwargs = Inl e) \<longleftrightarrow>
      (\<exists>(k, v) \<in> set kwargs. \<exists>d. map_of default_args k = Some d \<and> d \<noteq> PyNone \<and> v \<noteq> PyNone \<and>
          \<not> isinstance v (type_of d)))
   \<and> (\<forall>e. override_args default_args kwargs = Inl e \<longrightarrow>
         (\<exists>(k, v) \<in> set kwargs. \<exists>d. map_of default_args k = Some d \<and> d \<noteq> PyNone \<and> v \<noteq> PyNone \<and>
             \<not> isinstance v (type_of d) \<and>
             e = ValueError (Argument_should_have_type k (type_of d))))
   \<and> ((\<forall>(k, v) \<in> set kwargs. \<forall>d. map_of default_args k = Some d \<longrightarrow> d = PyNone \<or> v = PyNone) \<longrightarrow>
         override_args default_args kwargs = Inr (dict_merge default_args kwargs))"
proof (intro conjI allI impI)
  show "(\<exists>e. override_args default_args kwargs = Inl e) \<longleftrightarrow>
      (\<exists>(k, v) \<in> set kwargs. \<exists>d. map_of default_args k = Some d \<and> d \<noteq> PyNone \<and> v \<noteq> PyNone \<and>
          \<not> isinstance v (type_of d))"
  proof (cases "override_args_loop default_args kwargs")
    case None
    then show ?thesis
      using loop_None_iff[of default_args kwargs]
      by (fastforce simp: override_args_def)
  next
    case (Some e)
    then show ?thesis
      using loop_Some[of default_args kwargs e]
      by (fastforce simp: override_args_def)
  qed
next
  fix e assume "override_args default_args kwargs = Inl e"
  then have "override_args_loop default_args kwargs = Some e"
    by (simp add: override_args_def split: option.splits)
  then show "\<exists>(k, v) \<in> set kwargs. \<exists>d. map_of default_args k = Some d \<and> d \<noteq> PyNone \<and> v \<noteq> PyNone \<and>
             \<not> isinstance v (type_of d) \<and>
             e = ValueError (Argument_should_have_type k (type_of d))"
    by (rule loop_Some)
next
  assume "\<forall>(k, v) \<in> set kwargs. \<forall>d. map_of default_args k = Some d \<longrightarrow> d = PyNone \<or> v = PyNone"
  then have "override_args_loop default_args kwargs = None"
    unfolding loop_None_iff by fastforce
  then show "override_args default_args kwargs = Inr (dict_merge default_args kwargs)"
    by (simp add: override_args_def)
qed

text \<open>
  The specification's example \<^verbatim>\<open>OverrideDefaults({a: 5}, {a: "x"})\<close>, and an override
  that is \<^verbatim>\<open>None\<close> beside a key the defaults do not have.
\<close>

theorem override_args_raises_witness:
  "override_args [(''a'', PyInt 5)] [(''a'', PyStr ''x'')] =
     Inl (ValueError (Argument_should_have_type ''a'' int_type))
   \<and> override_args [(''a'', PyInt 5)] [(''a'', PyNone), (''b'', PyStr ''x'')] =
       Inr [(''a'', PyNone), (''b'', PyStr ''x'')]"
  using override_args_raises_iff_not_instance [of "[(''a'', PyInt 5)]" "[(''a'', PyStr ''x'')]"]
        override_args_raises_iff_not_instance
          [of "[(''a'', PyInt 5)]" "[(''a'', PyNone), (''b'', PyStr ''x'')]"]
  by (simp add: evaluation)

text \<open>
  Against C2 as stated: the default \<^verbatim>\<open>num_classes=1000\<close> is an \<^verbatim>\<open>int\<close>, the override
  \<^verbatim>\<open>True\<close> is a \<^verbatim>\<open>bool\<close>; both are set and their types differ, yet nothing is raised,
  because \<^verbatim>\<open>bool\<close> is a subclass of \<^verbatim>\<open>int\<close>.
\<close>

theorem override_args_accepts_subclass:
  "override_args [(''num_classes'', PyInt 1000)] [(''num_classes'', PyBool True)] =
     Inr [(''num_classes'', PyBool True)]
   \<and> PyInt 1000 \<noteq> PyNone \<and> PyBool True \<noteq> PyNone
   \<and> type_of (PyBool True) \<noteq> type_of (PyInt 1000)"
  by (simp add: evaluation)

subsection \<open>\<^verbatim>\<open>DataSet.__init__\<close>\<close>

text \<open>
  C3. When the keys of \<open>kwargs\<close> are exactly the five required names, \<^verbatim>\<open>__init__\<close>
  succeeds; the descriptor has the given name and path, each required attribute is the
  value \<open>kwargs\<close> holds under its name, and the three optional attributes are \<^verbatim>\<open>None\<close>.
\<close>

theorem DataSet_init_required_only:
  assumes "set (keys kwargs) = set required_args"
  shows "\<exists>self. DataSet_init name path kwargs = Inr self
           \<and> ds_name self = name \<and> data_path self = path
           \<and> map_of kwargs ''num_classes'' = Some (num_classes self)
           \<and> map_of kwargs ''mean'' = Some (mean self)
           \<and> map_of kwargs ''std'' = Some (std self)
           \<and> map_of kwargs ''transform_train'' = Some (transform_train self)
           \<and> map_of kwargs ''transform_test'' = Some (transform_test self)
           \<and> custom_class self = PyNone
           \<and> label_mapping self = PyNone
           \<and> custom_class_args self = PyNone"
proof -
  have no_missing: "set required_args - set (keys kwargs) = {}"
    using assms by simp
  have no_extra: "set (keys kwargs) - set (required_args @ optional_args) = {}"
    using assms by simp
  have req: "\<And>k. k \<in> set required_args \<Longrightarrow> map_of kwargs k = Some (dict_get kwargs k)"
    using assms dict_get_key by simp
  have disj: "set required_args \<inter> set optional_args = {}"
    by (simp add: required_args_def optional_args_def)
  have opt: "\<And>k. k \<in> set optional_args \<Longrightarrow> dict_get kwargs k = PyNone"
  proof -
    fix k assume "k \<in> set optional_args"
    with disj have "k \<notin> set required_args" by blast
    with assms have "k \<notin> set (keys kwargs)" by simp
    then show "dict_get kwargs k = PyNone" by (rule dict_get_absent)
  qed
  have init: "DataSet_init name path kwargs =
     Inr \<lparr> ds_name = name,
           data_path = path,
           num_classes = dict_get kwargs ''num_classes'',
           mean = dict_get kwargs ''mean'',
           std = dict_get kwargs ''std'',
           transform_train = dict_get kwargs ''transform_train'',
           transform_test = dict_get kwargs ''transform_test'',
           custom_class = dict_get kwargs ''custom_class'',
           label_mapping = dict_get kwargs ''label_mapping'',
           custom_class_args = dict_get kwargs ''custom_class_args'' \<rparr>"
    unfolding DataSet_init_def Let_def
    by (simp only: no_missing no_extra if_False simp_thms)
  show ?thesis
    unfolding init
    by (simp add: req opt required_args_def optional_args_def)
qed

text \<open>The keyword arguments of CIFAR-10.\<close>

theorem DataSet_init_required_only_witness:
  "set (keys cifar_kwargs) = set required_args
   \<and> DataSet_init ''cifar'' ''/data/cifar'' cifar_kwargs = Inr cifar_ds
   \<and> map_of cifar_kwargs ''num_classes'' = Some (num_classes cifar_ds)
   \<and> custom_class cifar_ds = PyNone"
  using DataSet_init_required_only
          [where kwargs = cifar_kwargs and name = "''cifar''" and path = "''/data/cifar''"]
  by (simp add: evaluation)

text \<open>
  C4. When \<open>kwargs\<close> lacks at least one of the five required names, \<^verbatim>\<open>__init__\<close> raises
  the \<^verbatim>\<open>ValueError\<close> whose message lists exactly the required names that are absent,
  whatever other keys \<open>kwargs\<close> has: the check for missing names comes first.
\<close>

theorem DataSet_init_missing_args:
  assumes "\<not> set required_args \<subseteq> set (keys kwargs)"
  shows "DataSet_init name path kwargs =
           Inl (ValueError (Missing_required_args (set required_args - set (keys kwargs))))"
  using assms by (auto simp: DataSet_init_def Let_def)

text \<open>One required name given, together with a name the class does not know.\<close>

theorem DataSet_init_missing_args_witness:
  "\<not> set required_args \<subseteq> set (keys [(''num_classes'', PyInt 10), (''colour'', PyStr ''red'')])
   \<and> DataSet_init ''cifar'' ''/data/cifar''
         [(''num_classes'', PyInt 10), (''colour'', PyStr ''red'')] =
       Inl (ValueError (Missing_required_args
              {''mean'', ''std'', ''transform_train'', ''transform_test''}))"
  using DataSet_init_missing_args
          [where kwargs = "[(''num_classes'', PyInt 10), (''colour'', PyStr ''red'')]"
             and name = "''cifar''" and path = "''/data/cifar''"]
  by (auto simp add: evaluation)

text \<open>
  C6, as amended. On every \<open>kwargs\<close> that \<^verbatim>\<open>__init__\<close> accepts, the keys \<^verbatim>\<open>mean\<close> and
  \<^verbatim>\<open>std\<close> are present and the descriptor's \<^verbatim>\<open>mean\<close> and \<^verbatim>\<open>std\<close> are the values supplied
  under them, whatever these are: non-null when the supplied value is non-null, \<^verbatim>\<open>None\<close>
  when it is \<^verbatim>\<open>None\<close>.
\<close>

theorem DataSet_init_statistics_as_supplied:
  assumes "DataSet_init name path kwargs = Inr self"
  shows "map_of kwargs ''mean'' = Some (mean self) \<and> map_of kwargs ''std'' = Some (std self)"
proof -
  from assms have sub: "set required_args \<subseteq> set (keys kwargs)"
    by (auto simp: DataSet_init_def Let_def split: if_splits)
  from assms have self: "mean self = dict_get kwargs ''mean''" "std self = dict_get kwargs ''std''"
    by (auto simp: DataSet_init_def Let_def split: if_splits)
  have "''mean'' \<in> set (keys kwargs)" "''std'' \<in> set (keys kwargs)"
    using sub by (auto simp: required_args_def)
  then show ?thesis
    by (simp add: self dict_get_key)
qed

theorem DataSet_init_statistics_as_supplied_witness:
  "DataSet_init ''cifar'' ''/data/cifar'' cifar_kwargs = Inr cifar_ds
   \<and> map_of cifar_kwargs ''mean'' = Some (PyTensor [0.4914, 0.4822, 0.4465])
   \<and> mean cifar_ds = PyTensor [0.4914, 0.4822, 0.4465]
   \<and> map_of cifar_kwargs ''std'' = Some (PyTensor [0.2023, 0.1994, 0.2010])
   \<and> std cifar_ds = PyTensor [0.2023, 0.1994, 0.2010]"
  using DataSet_init_statistics_as_supplied
          [where kwargs = cifar_kwargs and name = "''cifar''" and path = "''/data/cifar''"
             and self = cifar_ds]
  by (simp add: evaluation)

text \<open>
  Against C6 as stated: with \<^verbatim>\<open>mean=None\<close> and \<^verbatim>\<open>std=None\<close> given explicitly the
  construction succeeds, and both attributes of the descriptor are \<^verbatim>\<open>None\<close>.
\<close>

theorem DataSet_init_accepts_null_statistics:
  "DataSet_init ''cifar'' ''/data/cifar'' no_stats_kwargs =
     Inr (cifar_ds \<lparr> mean := PyNone, std := PyNone \<rparr>)
   \<and> mean (cifar_ds \<lparr> mean := PyNone, std := PyNone \<rparr>) = PyNone
   \<and> std (cifar_ds \<lparr> mean := PyNone, std := PyNone \<rparr>) = PyNone"
  by (simp add: evaluation)

subsection \<open>\<^verbatim>\<open>override_args\<close>: what it returns\<close>

text \<open>
  C5. When \<^verbatim>\<open>override_args\<close> does not raise on defaults and a dictionary of overrides,
  its result holds every key of the overrides with the override's value (also when that
  value is \<^verbatim>\<open>None\<close>), and agrees with the defaults on every key the overrides do not have.
  A key that only the overrides have is passed through without any check: appending such
  a key with any value whatever to the overrides still does not raise, and appends the
  item to the result. The result is a new dictionary (with distinct keys when the
  defaults have distinct keys); the arguments are only read.
\<close>

theorem override_args_merges:
  assumes "is_dict kwargs"
      and "override_args default_args kwargs = Inr result"
  shows "(\<forall>k v. map_of kwargs k = Some v \<longrightarrow> map_of result k = Some v)
       \<and> (\<forall>k. map_of kwargs k = None \<longrightarrow> map_of result k = map_of default_args k)
       \<and> (\<forall>k v. map_of default_args k = None \<and> map_of kwargs k = None \<longrightarrow>
            override_args default_args (kwargs @ [(k, v)]) = Inr (result @ [(k, v)]))
       \<and> (is_dict default_args \<longrightarrow> is_dict result)"
proof -
  from assms(2) have loop: "override_args_loop default_args kwargs = None"
    and result: "result = dict_merge default_args kwargs"
    by (auto simp: override_args_def split: option.splits)
  from assms(1) have m: "map_of result = map_of default_args ++ map_of kwargs"
    unfolding result is_dict_def by (rule map_of_dict_merge)
  have 1: "\<forall>k v. map_of kwargs k = Some v \<longrightarrow> map_of result k = Some v"
    by (simp add: m)
  have 2: "\<forall>k. map_of kwargs k = None \<longrightarrow> map_of result k = map_of default_args k"
    by (simp add: m map_add_def)
  have 3: "\<forall>k v. map_of default_args k = None \<and> map_of kwargs k = None \<longrightarrow>
            override_args default_args (kwargs @ [(k, v)]) = Inr (result @ [(k, v)])"
  proof (intro allI impI)
    fix k v assume a: "map_of default_args k = None \<and> map_of kwargs k = None"
    then have "k \<notin> fst ` set (dict_merge default_args kwargs)"
      by (simp add: keys_dict_merge map_of_eq_None_iff)
    then have "dict_merge default_args (kwargs @ [(k, v)]) = result @ [(k, v)]"
      unfolding result dict_merge_snoc by (rule update_absent)
    moreover have "override_args_loop default_args (kwargs @ [(k, v)]) = None"
      using a loop by (simp add: loop_append_absent)
    ultimately show "override_args default_args (kwargs @ [(k, v)]) = Inr (result @ [(k, v)])"
      by (simp add: override_args_def)
  qed
  have 4: "is_dict default_args \<longrightarrow> is_dict result"
    unfolding result is_dict_def by (simp add: distinct_dict_merge)
  from 1 2 3 4 show ?thesis by blast
qed

text \<open>
  An override that unsets \<open>a\<close>, a default \<open>b\<close> that is kept, and a key \<open>c\<close> only the
  overrides have; then the same with one more such key, \<open>d\<close>.
\<close>

theorem override_args_merges_witness:
  "is_dict [(''a'', PyNone), (''c'', PyInt 1)]
   \<and> override_args [(''a'', PyInt 5), (''b'', PyStr ''x'')] [(''a'', PyNone), (''c'', PyInt 1)] =
       Inr [(''a'', PyNone), (''b'', PyStr ''x''), (''c'', PyInt 1)]
   \<and> map_of [(''a'', PyNone), (''b'', PyStr ''x''), (''c'', PyInt 1)] ''a'' = Some PyNone
   \<and> map_of [(''a'', PyNone), (''b'', PyStr ''x''), (''c'', PyInt 1)] ''b'' = Some (PyStr ''x'')
   \<and> override_args [(''a'', PyInt 5), (''b'', PyStr ''x'')]
         [(''a'', PyNone), (''c'', PyInt 1), (''d'', PyStr ''y'')] =
       Inr [(''a'', PyNone), (''b'', PyStr ''x''), (''c'', PyInt 1), (''d'', PyStr ''y'')]"
  using override_args_merges
          [where kwargs = "[(''a'', PyNone), (''c'', PyInt 1)]"
             and default_args = "[(''a'', PyInt 5), (''b'', PyStr ''x'')]"
             and result = "[(''a'', PyNone), (''b'', PyStr ''x''), (''c'', PyInt 1)]"]
  by (simp add: evaluation)

subsection \<open>\<^verbatim>\<open>get_model\<close>\<close>

text \<open>
  C7, as amended. For every concrete class of the module and every architecture name
  that the registry does not hold, \<^verbatim>\<open>get_model\<close> with \<^verbatim>\<open>pretrained=False\<close> fails with the
  \<^verbatim>\<open>KeyError\<close> of the dictionary lookup, carrying the name; the error is not a
  \<^verbatim>\<open>ValueError\<close>.
\<close>

theorem get_model_unknown_arch_KeyError:
  assumes "imagenet_models arch = None" and "cls \<noteq> DataSet_class"
  shows "get_model cls imagenet_models self arch False = Inl (KeyError arch)
       \<and> \<not> raises_ValueError (get_model cls imagenet_models self arch False)"
  using assms
  by (cases cls)
     (simp_all add: ImageNet_get_model_def Places365_get_model_def
        RestrictedImageNet_get_model_def CustomImageNet_get_model_def)

theorem get_model_unknown_arch_KeyError_witness:
  "example_registry ''resnet999'' = None \<and> RestrictedImageNet \<noteq> DataSet_class
   \<and> get_model RestrictedImageNet example_registry restricted_ds ''resnet999'' False =
       Inl (KeyError ''resnet999'')"
  using get_model_unknown_arch_KeyError
          [of example_registry "''resnet999''" RestrictedImageNet restricted_ds]
  by (simp add: evaluation)

text \<open>
  Against C7 as stated: on the ImageNet descriptor, an architecture name the registry
  does not hold does not make \<^verbatim>\<open>get_model\<close> raise a \<^verbatim>\<open>ValueError\<close>.
\<close>

theorem get_model_unknown_arch_not_ValueError:
  "\<not> raises_ValueError (get_model ImageNet example_registry imagenet_ds ''resnet999'' False)"
  by (simp add: evaluation)

text \<open>
  C8. On every descriptor and for every architecture name, in the registry or not,
  \<^verbatim>\<open>get_model\<close> of \<^verbatim>\<open>RestrictedImageNet\<close> and of \<^verbatim>\<open>CustomImageNet\<close> with
  \<^verbatim>\<open>pretrained=True\<close> raises a \<^verbatim>\<open>ValueError\<close>.
\<close>

theorem get_model_rejects_pretrained:
  "get_model RestrictedImageNet imagenet_models self arch True =
     Inl (ValueError Doesnt_support_pytorch_pretrained)
   \<and> get_model CustomImageNet imagenet_models self arch True =
     Inl (ValueError Doesnt_support_pytorch_pretrained)
   \<and> raises_ValueError (get_model RestrictedImageNet imagenet_models self arch True)
   \<and> raises_ValueError (get_model CustomImageNet imagenet_models self arch True)"
  by (simp add: RestrictedImageNet_get_model_def CustomImageNet_get_model_def)

text \<open>The two descriptors built without overrides, asked for a known architecture.\<close>

theorem get_model_rejects_pretrained_witness:
  "RestrictedImageNet_init example_package ''/data/imagenet'' [] = Inr restricted_ds
   \<and> get_model RestrictedImageNet example_registry restricted_ds ''resnet50'' True =
       Inl (ValueError Doesnt_support_pytorch_pretrained)
   \<and> CustomImageNet_init example_package ''/data/imagenet'' two_groups [] = Inr custom_ds
   \<and> get_model CustomImageNet example_registry custom_ds ''resnet50'' True =
       Inl (ValueError Doesnt_support_pytorch_pretrained)"
  using get_model_rejects_pretrained [of example_registry restricted_ds "''resnet50''"]
        get_model_rejects_pretrained [of example_registry custom_ds "''resnet50''"]
  by (simp add: evaluation)

text \<open>
  C10, as amended. For an architecture name the registry holds, \<^verbatim>\<open>get_model\<close> of
  \<^verbatim>\<open>ImageNet\<close> returns or raises exactly what the registered entry returns or raises when
  called with the descriptor's \<^verbatim>\<open>num_classes\<close> and the caller's \<^verbatim>\<open>pretrained\<close> flag
  as given. It has no check of its own and adds no failure of its own: with
  \<^verbatim>\<open>pretrained=True\<close>, whenever the entry asked for pretrained weights returns a model,
  that model is the result. Whether the call succeeds is up to the entry.
\<close>

theorem ImageNet_get_model_forwards_pretrained:
  assumes "imagenet_models arch = Some builder"
  shows "get_model ImageNet imagenet_models self arch pretrained =
           builder \<lparr> kw_num_classes = num_classes self, kw_pretrained = Some pretrained \<rparr>
       \<and> (\<forall>model.
            builder \<lparr> kw_num_classes = num_classes self, kw_pretrained = Some True \<rparr> = Inr model
            \<longrightarrow> get_model ImageNet imagenet_models self arch True = Inr model)"
  using assms by (simp add: ImageNet_get_model_def)

text \<open>\<^verbatim>\<open>ImageNet('/data/imagenet').get_model('resnet50', True)\<close>.\<close>

theorem ImageNet_get_model_forwards_pretrained_witness:
  "example_registry ''resnet50'' = Some Inr
   \<and> ImageNet_init example_package ''/data/imagenet'' [] = Inr imagenet_ds
   \<and> get_model ImageNet example_registry imagenet_ds ''resnet50'' True =
       Inr \<lparr> kw_num_classes = PyInt 1000, kw_pretrained = Some True \<rparr>"
  using ImageNet_get_model_forwards_pretrained
          [of example_registry "''resnet50''" Inr imagenet_ds True]
  by (simp add: evaluation)

text \<open>
  Against C10 as stated: \<^verbatim>\<open>__name__\<close> is present in the registry, and
  \<^verbatim>\<open>ImageNet('/data/imagenet').get_model('__name__', True)\<close> does not succeed.
\<close>

theorem ImageNet_get_model_registered_name_fails:
  "module_registry ''__name__'' \<noteq> None
   \<and> ImageNet_init example_package ''/data/imagenet'' [] = Inr imagenet_ds
   \<and> get_model ImageNet module_registry imagenet_ds ''__name__'' True = Inl TypeError"
  by (simp add: evaluation)

subsection \<open>The number of classes of the grouped variants\<close>

text \<open>
  C9, as amended. Constructed without overrides, whenever the label mapper returns a
  mapping for the groups, \<^verbatim>\<open>RestrictedImageNet\<close> succeeds with \<^verbatim>\<open>num_classes\<close> equal to the
  number of hard-coded ranges and with the mapping built from exactly those ranges as
  its \<^verbatim>\<open>label_mapping\<close>, and \<^verbatim>\<open>CustomImageNet\<close> succeeds with \<^verbatim>\<open>num_classes\<close> equal to
  the length of \<^verbatim>\<open>custom_grouping\<close> and with the mapping built from that list. Nothing
  relates \<^verbatim>\<open>num_classes\<close> to \<^verbatim>\<open>label_mapping\<close> once either is overridden.
\<close>

theorem grouped_variants_num_classes:
  "(\<forall>mapping.
      get_label_mapping pkg ''restricted_imagenet'' (RESTRICTED_IMAGNET_RANGES pkg) = Inr mapping \<longrightarrow>
      (\<exists>self. RestrictedImageNet_init pkg path [] = Inr self
         \<and> num_classes self = PyInt (int (length (RESTRICTED_IMAGNET_RANGES pkg)))
         \<and> label_mapping self = mapping))
   \<and> (\<forall>mapping.
      get_label_mapping pkg ''custom_imagenet'' custom_grouping = Inr mapping \<longrightarrow>
      (\<exists>self. CustomImageNet_init pkg path custom_grouping [] = Inr self
         \<and> num_classes self = PyInt (int (length custom_grouping))
         \<and> label_mapping self = mapping))"
  by (simp add: RestrictedImageNet_init_def CustomImageNet_init_def override_args_def
        dict_merge_def super_init_def has_key_def DataSet_init_def keys_def dict_get_def
        required_args_def optional_args_def Let_def)

text \<open>
  With the label mapper of the specification: nine ranges give nine classes and a mapping
  of nine groups, a grouping of two lists gives two classes and a mapping of two groups.
\<close>

theorem grouped_variants_num_classes_witness:
  "get_label_mapping example_package ''restricted_imagenet''
      (RESTRICTED_IMAGNET_RANGES example_package) = Inr (label_mapping restricted_ds)
   \<and> RestrictedImageNet_init example_package ''/data/imagenet'' [] = Inr restricted_ds
   \<and> num_classes restricted_ds = PyInt 9
   \<and> group_count (label_mapping restricted_ds) = Some 9
   \<and> get_label_mapping example_package ''custom_imagenet'' two_groups =
       Inr (label_mapping custom_ds)
   \<and> CustomImageNet_init example_package ''/data/imagenet'' two_groups [] = Inr custom_ds
   \<and> num_classes custom_ds = PyInt 2
   \<and> group_count (label_mapping custom_ds) = Some 2"
  using grouped_variants_num_classes [of example_package "''/data/imagenet''" two_groups]
  by (simp add: evaluation)

text \<open>
  Against C9 as stated: \<^verbatim>\<open>RestrictedImageNet('/data/imagenet', num_classes=3)\<close> is
  constructed; its label mapping is set and has nine groups, its \<^verbatim>\<open>num_classes\<close> is 3.
\<close>

theorem override_breaks_num_classes:
  "RestrictedImageNet_init example_package ''/data/imagenet'' [(''num_classes'', PyInt 3)] =
     Inr restricted3_ds
   \<and> label_mapping restricted3_ds \<noteq> PyNone
   \<and> group_count (label_mapping restricted3_ds) = Some 9
   \<and> num_classes restricted3_ds = PyInt 3"
  by (simp add: evaluation)

end
